theory Spec2Isabelle
  imports Main
begin

section \<open>JavaScript primitives used by the program\<close>

text \<open>
  Strings are lists of bytes; a letter outside ASCII is written as its UTF-8 bytes.
  \<open>startsWith\<close>, \<open>split\<close> and \<open>join\<close> on an ASCII separator and \<open>toLowerCase\<close> on the
  ASCII mode names act the same on bytes as on JavaScript's code units; \<open>trim\<close> strips
  the UTF-8 encodings of the characters that JavaScript strips.
\<close>

definition startsWith :: "string \<Rightarrow> string \<Rightarrow> bool" where
  "startsWith s p \<longleftrightarrow> take (length p) s = p"

text \<open>\<open>s.split(c)\<close> for a one-character separator: never the empty array.\<close>

fun split :: "char \<Rightarrow> string \<Rightarrow> string list" where
  "split c [] = [[]]"
| "split c (x # xs) =
     (if x = c then [] # split c xs
      else (case split c xs of [] \<Rightarrow> [[x]] | y # ys \<Rightarrow> (x # y) # ys))"

text \<open>\<open>xs.join(c)\<close>.\<close>

fun join :: "char \<Rightarrow> string list \<Rightarrow> string" where
  "join c [] = []"
| "join c [x] = x"
| "join c (x # y # ys) = x @ c # join c (y # ys)"

text \<open>\<open>xs.slice(0, -1)\<close>: everything but the last element.\<close>

definition slice_0_m1 :: "'a list \<Rightarrow> 'a list" where
  "slice_0_m1 xs = butlast xs"

definition lower_char :: "char \<Rightarrow> char" where
  "lower_char c =
     (let n = (of_char c :: nat) in if 65 \<le> n \<and> n \<le> 90 then char_of (n + 32) else c)"

definition toLowerCase :: "string \<Rightarrow> string" where
  "toLowerCase s = map lower_char s"

text \<open>Truthiness of a string and of a \<open>string | null\<close>.\<close>

definition truthy :: "string \<Rightarrow> bool" where
  "truthy s \<longleftrightarrow> s \<noteq> []"

definition truthy_opt :: "string option \<Rightarrow> bool" where
  "truthy_opt x = (case x of None \<Rightarrow> False | Some s \<Rightarrow> truthy s)"

text \<open>
  The characters \<open>s.trim()\<close> strips, ECMAScript's white space and line terminators, in
  UTF-8: U+0009 to U+000D, U+0020, U+00A0, U+1680, U+2000 to U+200A, U+2028, U+2029,
  U+202F, U+205F, U+3000 and U+FEFF.
\<close>

definition whiteSpace :: "string list" where
  "whiteSpace =
     [[CHR 0x09], [CHR 0x0A], [CHR 0x0B], [CHR 0x0C], [CHR 0x0D], [CHR 0x20],
      [CHR 0xC2, CHR 0xA0], [CHR 0xE1, CHR 0x9A, CHR 0x80],
      [CHR 0xE2, CHR 0x80, CHR 0x80], [CHR 0xE2, CHR 0x80, CHR 0x81],
      [CHR 0xE2, CHR 0x80, CHR 0x82], [CHR 0xE2, CHR 0x80, CHR 0x83],
      [CHR 0xE2, CHR 0x80, CHR 0x84], [CHR 0xE2, CHR 0x80, CHR 0x85],
      [CHR 0xE2, CHR 0x80, CHR 0x86], [CHR 0xE2, CHR 0x80, CHR 0x87],
      [CHR 0xE2, CHR 0x80, CHR 0x88], [CHR 0xE2, CHR 0x80, CHR 0x89],
      [CHR 0xE2, CHR 0x80, CHR 0x8A], [CHR 0xE2, CHR 0x80, CHR 0xA8],
      [CHR 0xE2, CHR 0x80, CHR 0xA9], [CHR 0xE2, CHR 0x80, CHR 0xAF],
      [CHR 0xE2, CHR 0x81, CHR 0x9F], [CHR 0xE3, CHR 0x80, CHR 0x80],
      [CHR 0xEF, CHR 0xBB, CHR 0xBF]]"

text \<open>
  Stripping, from the front, every leading occurrence of one of the patterns \<open>ws\<close>; an
  empty pattern strips nothing.
\<close>

function strip_leading :: "string list \<Rightarrow> string \<Rightarrow> string" where
  "strip_leading ws s =
     (case List.find (\<lambda>w. w \<noteq> [] \<and> startsWith s w) ws of
        None \<Rightarrow> s
      | Some w \<Rightarrow> strip_leading ws (drop (length w) s))"
  by pat_completeness auto
termination
proof (relation "measure (\<lambda>(ws, s). length s)")
  show "wf (measure (\<lambda>(ws, s). length s))" by simp
next
  fix ws :: "string list" and s w :: string
  assume "List.find (\<lambda>w. w \<noteq> [] \<and> startsWith s w) ws = Some w"
  then have "w \<noteq> []" and "startsWith s w"
    by (auto simp: find_Some_iff)
  then have "s \<noteq> []" by (auto simp: startsWith_def)
  with \<open>w \<noteq> []\<close> show "((ws, drop (length w) s), (ws, s)) \<in> measure (\<lambda>(ws, s). length s)"
    by simp
qed

text \<open>\<open>s.trim()\<close>: both ends stripped.\<close>

definition trim :: "string \<Rightarrow> string" where
  "trim s = rev (strip_leading (map rev whiteSpace) (rev (strip_leading whiteSpace s)))"

text \<open>A number inside a template literal: its decimal digits.\<close>

function string_of_nat :: "nat \<Rightarrow> string" where
  "string_of_nat n =
     (if n < 10 then [''0123456789'' ! n]
      else string_of_nat (n div 10) @ [''0123456789'' ! (n mod 10)])"
  by pat_completeness auto
termination
  by (relation "measure (\<lambda>n. n)") auto

section \<open>The generation client\<close>

datatype GenerationMode = ECOMMERCE | SOCIAL

text \<open>A browser \<open>File\<close>: the two properties the program reads.\<close>

record File =
  name :: string
  type :: string

text \<open>What the client can throw, and what a request can reject with.\<close>

datatype js_error = Error string | TypeError

text \<open>
  The service's response as the client reads it. A property the client dereferences
  without a check is an option: reading through a missing one raises \<open>TypeError\<close>.
  \<open>content\<close> is \<open>candidate.content.parts\<close>. A missing \<open>data\<close> is not read through:
  the template literal prints it as \<open>undefined\<close>.
\<close>

record blob =
  mimeType :: "string option"
  data :: "string option"

record part =
  inlineData :: "blob option"

record candidate =
  content :: "part list option"

record response =
  candidates :: "candidate list option"

text \<open>
  The image part of a request: the inline data that \<open>fileToGenerativePart\<close> reads from
  the uploaded file, or that \<open>dataUrlToGenerativePart\<close> cuts out of a data URL. Their
  encoding work is left folded.
\<close>

datatype imagePart = FileToGenerativePart File | DataUrlToGenerativePart string

datatype request_part = Image imagePart | Text string

record request =
  model :: string
  parts :: "request_part list"
  responseModalities :: "string list"

datatype settled = Fulfilled response | Rejected js_error

text \<open>
  \<open>ai.models.generateContent\<close>, the external service: how the request dispatched at
  position \<open>i\<close> of the fan-out settles.
\<close>

type_synonym genai = "request \<Rightarrow> nat \<Rightarrow> settled"

text \<open>The two instruction templates, byte for byte.\<close>

definition ecommercePrompt :: string where
  "ecommercePrompt = concat
    [''**TAREFA:** A partir da imagem fornecida, recrie-a como uma fotografia de produto para e-commerce com a mais alta qualidade profissional, hiper-realista e pronta para publica'', [CHR 0xC3, CHR 0xA7], [CHR 0xC3, CHR 0xA3], ''o.'', [CHR 0x0A],
     [CHR 0x0A],
     ''**DIRETRIZES ESSENCIAIS DE QUALIDADE:**'', [CHR 0x0A],
     [CHR 0x0A],
     ''1.  **ILUMINA'', [CHR 0xC3, CHR 0x87], [CHR 0xC3, CHR 0x83], ''O DE EST'', [CHR 0xC3, CHR 0x9A], ''DIO:** Simule uma configura'', [CHR 0xC3, CHR 0xA7], [CHR 0xC3, CHR 0xA3], ''o de **lightbox profissional**. A ilumina'', [CHR 0xC3, CHR 0xA7], [CHR 0xC3, CHR 0xA3], ''o deve ser perfeitamente difusa, suave e envolvente, eliminando completamente sombras duras e reflexos especulares indesejados. O produto deve ser iluminado de forma a destacar suas texturas e formas naturais.'', [CHR 0x0A],
     [CHR 0x0A],
     ''2.  **FUNDO IMACULADO:** O fundo deve ser **branco puro (#FFFFFF), uniforme e absolutamente limpo**. '', [CHR 0xC3, CHR 0x89], '' terminantemente proibido qualquer tipo de gradiente, textura ou **sombra projetada** do produto no fundo. O produto deve parecer flutuar em um espa'', [CHR 0xC3, CHR 0xA7], ''o branco infinito.'', [CHR 0x0A],
     [CHR 0x0A],
     ''3.  **HIPER-REALISMO E COR:** A renderiza'', [CHR 0xC3, CHR 0xA7], [CHR 0xC3, CHR 0xA3], ''o deve ser **extremamente realista**. As texturas dos materiais (pl'', [CHR 0xC3, CHR 0xA1], ''stico, papel, metal, tecido, etc.) devem ser aut'', [CHR 0xC3, CHR 0xAA], ''nticas e t'', [CHR 0xC3, CHR 0xA1], ''teis. A **precis'', [CHR 0xC3, CHR 0xA3], ''o de cor '', [CHR 0xC3, CHR 0xA9], '' cr'', [CHR 0xC3, CHR 0xAD], ''tica**; as cores devem ser vibrantes, mas 100% fi'', [CHR 0xC3, CHR 0xA9], ''is ao produto original, com um balan'', [CHR 0xC3, CHR 0xA7], ''o de branco perfeitamente neutro, sem dominantes de cor.'', [CHR 0x0A],
     [CHR 0x0A],
     ''4.  **NITIDEZ E DETALHE:** O produto inteiro deve estar em **foco absoluto e perfeitamente n'', [CHR 0xC3, CHR 0xAD], ''tido** de ponta a ponta (grande profundidade de campo). As bordas devem ser limpas e definidas, sem aberra'', [CHR 0xC3, CHR 0xA7], [CHR 0xC3, CHR 0xB5], ''es crom'', [CHR 0xC3, CHR 0xA1], ''ticas, halos ou desfoques de recorte.'', [CHR 0x0A],
     [CHR 0x0A],
     ''5.  **ENQUADRAMENTO PROFISSIONAL:**'', [CHR 0x0A],
     ''    *   **Propor'', [CHR 0xC3, CHR 0xA7], [CHR 0xC3, CHR 0xA3], ''o e Resolu'', [CHR 0xC3, CHR 0xA7], [CHR 0xC3, CHR 0xA3], ''o:** A imagem final DEVE ser um quadrado perfeito (1:1) com resolu'', [CHR 0xC3, CHR 0xA7], [CHR 0xC3, CHR 0xA3], ''o de 2048x2048 pixels.'', [CHR 0x0A],
     ''    *   **Composi'', [CHR 0xC3, CHR 0xA7], [CHR 0xC3, CHR 0xA3], ''o:** O produto deve ser **cuidadosamente centralizado** e dimensionado para ocupar uma por'', [CHR 0xC3, CHR 0xA7], [CHR 0xC3, CHR 0xA3], ''o significativa do quadro (aproximadamente 85-90%), garantindo uma **margem (padding) generosa e visualmente consistente** em todos os lados. Evite que o produto pare'', [CHR 0xC3, CHR 0xA7], ''a muito pequeno ou muito grande a ponto de tocar as bordas. O objetivo '', [CHR 0xC3, CHR 0xA9], '' um enquadramento equilibrado e profissional.'', [CHR 0x0A]]"

definition socialPrompt :: string where
  "socialPrompt = concat
    [''**TAREFA:** A partir da imagem do produto fornecida, crie uma fotografia de ambiente (lifestyle) **hiper-realista e profissional** para redes sociais, que seja elegante e contextualizada.'', [CHR 0x0A],
     [CHR 0x0A],
     ''**DIRETRIZES ESSENCIAIS DE ESTILO:**'', [CHR 0x0A],
     [CHR 0x0A],
     ''1.  **CONTEXTO INTELIGENTE:** Analise o produto e crie um cen'', [CHR 0xC3, CHR 0xA1], ''rio que **complemente sua natureza e uso**. Por exemplo, um pote de geleia pode ser apresentado em uma mesa de caf'', [CHR 0xC3, CHR 0xA9], '' da manh'', [CHR 0xC3, CHR 0xA3], '', enquanto um cosm'', [CHR 0xC3, CHR 0xA9], ''tico pode estar em um banheiro elegante. O objetivo '', [CHR 0xC3, CHR 0xA9], '' contar uma pequena hist'', [CHR 0xC3, CHR 0xB3], ''ria sobre o produto.'', [CHR 0x0A],
     [CHR 0x0A],
     ''2.  **EST'', [CHR 0xC3, CHR 0x89], ''TICA CONSISTENTE:** Mantenha uma est'', [CHR 0xC3, CHR 0xA9], ''tica **r'', [CHR 0xC3, CHR 0xBA], ''stica-chique, artesanal e convidativa**. Utilize materiais naturais como madeira, pedra, linho ou cer'', [CHR 0xC3, CHR 0xA2], ''mica. A composi'', [CHR 0xC3, CHR 0xA7], [CHR 0xC3, CHR 0xA3], ''o deve parecer aut'', [CHR 0xC3, CHR 0xAA], ''ntica e cuidadosamente arranjada, nunca artificial.'', [CHR 0x0A],
     [CHR 0x0A],
     ''3.  **ILUMINA'', [CHR 0xC3, CHR 0x87], [CHR 0xC3, CHR 0x83], ''O E ATMOSFERA:**'', [CHR 0x0A],
     ''    *   A ilumina'', [CHR 0xC3, CHR 0xA7], [CHR 0xC3, CHR 0xA3], ''o deve ser **natural e suave**, como a luz de uma janela. Crie **sombras suaves e realistas** que deem profundidade e volume '', [CHR 0xC3, CHR 0xA0], '' cena. A atmosfera geral deve ser quente, acolhedora e sofisticada.'', [CHR 0x0A],
     [CHR 0x0A],
     ''4.  **REALISMO E INTEGRA'', [CHR 0xC3, CHR 0x87], [CHR 0xC3, CHR 0x83], ''O DO PRODUTO:**'', [CHR 0x0A],
     ''    *   O produto fornecido deve ser **perfeitamente integrado** ao cen'', [CHR 0xC3, CHR 0xA1], ''rio, com sombras e reflexos realistas que interagem com o ambiente.'', [CHR 0x0A],
     ''    *   Mantenha a **fidelidade total ao produto original** (cores, texturas, r'', [CHR 0xC3, CHR 0xB3], ''tulos).'', [CHR 0x0A],
     [CHR 0x0A],
     ''5.  **ENQUADRAMENTO E FOCO:**'', [CHR 0x0A],
     ''    *   **Propor'', [CHR 0xC3, CHR 0xA7], [CHR 0xC3, CHR 0xA3], ''o:** A imagem final DEVE ser um quadrado perfeito (1:1). Resolu'', [CHR 0xC3, CHR 0xA7], [CHR 0xC3, CHR 0xA3], ''o: 2048x2048 pixels.'', [CHR 0x0A],
     ''    *   **Foco:** O produto deve ser o ponto focal principal. Use uma profundidade de campo ligeiramente rasa (foco suave no fundo) para destac'', [CHR 0xC3, CHR 0xA1], ''-lo, mas garantindo que o contexto seja reconhec'', [CHR 0xC3, CHR 0xAD], ''vel.'', [CHR 0x0A],
     ''    *   **Composi'', [CHR 0xC3, CHR 0xA7], [CHR 0xC3, CHR 0xA3], ''o:** Siga princ'', [CHR 0xC3, CHR 0xAD], ''pios de composi'', [CHR 0xC3, CHR 0xA7], [CHR 0xC3, CHR 0xA3], ''o fotogr'', [CHR 0xC3, CHR 0xA1], ''fica (como a regra dos ter'', [CHR 0xC3, CHR 0xA7], ''os) para um resultado visualmente atraente.'', [CHR 0x0A]]"

text \<open>
  \<open>parts.find(p => p.inlineData && p.inlineData.mimeType.startsWith('image/'))\<close>:
  the first part that passes, \<open>None\<close> for \<open>undefined\<close>.
\<close>

fun find_image :: "part list \<Rightarrow> js_error + part option" where
  "find_image [] = Inr None"
| "find_image (p # ps) =
     (case inlineData p of
        None \<Rightarrow> find_image ps
      | Some d \<Rightarrow>
          (case mimeType d of
             None \<Rightarrow> Inl TypeError
           | Some m \<Rightarrow> if startsWith m ''image/'' then Inr (Some p) else find_image ps))"

text \<open>The template literal \<open>data:${mimeType};base64,${base64ImageBytes}\<close>.\<close>

definition template_string :: "string option \<Rightarrow> string" where
  "template_string x = (case x of None \<Rightarrow> ''undefined'' | Some s \<Rightarrow> s)"

definition data_url :: "blob \<Rightarrow> string" where
  "data_url d =
     ''data:'' @ template_string (mimeType d) @ '';base64,'' @ template_string (data d)"

text \<open>The loop over \<open>response.candidates\<close>, pushing onto \<open>imageUrls\<close>.\<close>

fun candidates_loop :: "candidate list \<Rightarrow> string list \<Rightarrow> js_error + string list" where
  "candidates_loop [] imageUrls = Inr imageUrls"
| "candidates_loop (c # cs) imageUrls =
     (case content c of
        None \<Rightarrow> Inl TypeError
      | Some ps \<Rightarrow>
          (case find_image ps of
             Inl e \<Rightarrow> Inl e
           | Inr None \<Rightarrow> candidates_loop cs imageUrls
           | Inr (Some p) \<Rightarrow>
               (case inlineData p of
                  None \<Rightarrow> Inl TypeError
                | Some d \<Rightarrow> candidates_loop cs (imageUrls @ [data_url d]))))"

definition processApiResponse :: "response \<Rightarrow> js_error + string list" where
  "processApiResponse r =
     (case (case candidates r of
              None \<Rightarrow> Inr []
            | Some cs \<Rightarrow> if length cs > 0 then candidates_loop cs [] else Inr []) of
        Inl e \<Rightarrow> Inl e
      | Inr imageUrls \<Rightarrow>
          if length imageUrls = 0
          then Inl (Error ''Nenhuma imagem foi gerada na resposta da API.'')
          else Inr imageUrls)"

text \<open>
  \<open>await Promise.all(imagePromises)\<close>: the responses in request order, or a rejection
  as soon as one request rejects.
\<close>

fun Promise_all :: "settled list \<Rightarrow> js_error + response list" where
  "Promise_all [] = Inr []"
| "Promise_all (Rejected e # ps) = Inl e"
| "Promise_all (Fulfilled r # ps) =
     (case Promise_all ps of Inl e \<Rightarrow> Inl e | Inr rs \<Rightarrow> Inr (r # rs))"

text \<open>\<open>responses.flatMap(f)\<close> for a callback that may throw.\<close>

fun flatMap :: "('a \<Rightarrow> js_error + 'b list) \<Rightarrow> 'a list \<Rightarrow> js_error + 'b list" where
  "flatMap f [] = Inr []"
| "flatMap f (x # xs) =
     (case f x of
        Inl e \<Rightarrow> Inl e
      | Inr ys \<Rightarrow> (case flatMap f xs of Inl e \<Rightarrow> Inl e | Inr zs \<Rightarrow> Inr (ys @ zs)))"

text \<open>
  The argument of \<open>ai.models.generateContent\<close>, the same object literal in both
  operations; the fan-out \<open>Array(4).fill(0).map(...)\<close> dispatches it at positions 0 to 3.
\<close>

definition generateContent_params :: "imagePart \<Rightarrow> string \<Rightarrow> request" where
  "generateContent_params imagePart prompt =
     \<lparr>model = ''gemini-2.5-flash-image'',
      parts = [Image imagePart, Text prompt],
      responseModalities = [''IMAGE'']\<rparr>"

definition generateImages :: "genai \<Rightarrow> File \<Rightarrow> GenerationMode \<Rightarrow> js_error + string list" where
  "generateImages ai imageFile mode =
     (let imagePart = FileToGenerativePart imageFile;
          prompt = (if mode = ECOMMERCE then ecommercePrompt else socialPrompt);
          imagePromises =
            map (ai (generateContent_params imagePart prompt)) [0..<4]
      in case (case Promise_all imagePromises of
                 Inl e \<Rightarrow> Inl e
               | Inr responses \<Rightarrow>
                   (case flatMap processApiResponse responses of
                      Inl e \<Rightarrow> Inl e
                    | Inr allImageUrls \<Rightarrow>
                        if length allImageUrls < 4
                        then Inl (Error (''A API gerou apenas ''
                                   @ string_of_nat (length allImageUrls)
                                   @ '' de 4 imagens solicitadas.''))
                        else Inr allImageUrls)) of
           Inl caught \<Rightarrow>
             Inl (Error ''Falha ao gerar as imagens. Por favor, verifique o console para mais detalhes.'')
         | Inr allImageUrls \<Rightarrow> Inr allImageUrls)"

definition refineImage :: "genai \<Rightarrow> string \<Rightarrow> string \<Rightarrow> js_error + string list" where
  "refineImage ai base64DataUrl prompt =
     (let imagePart = DataUrlToGenerativePart base64DataUrl;
          imagePromises =
            map (ai (generateContent_params imagePart prompt)) [0..<4]
      in case (case Promise_all imagePromises of
                 Inl e \<Rightarrow> Inl e
               | Inr responses \<Rightarrow>
                   (case flatMap processApiResponse responses of
                      Inl e \<Rightarrow> Inl e
                    | Inr allImageUrls \<Rightarrow>
                        if length allImageUrls < 4
                        then Inl (Error (''A API gerou apenas ''
                                   @ string_of_nat (length allImageUrls)
                                   @ '' de 4 imagens solicitadas.''))
                        else Inr allImageUrls)) of
           Inl caught \<Rightarrow>
             Inl (Error ''Falha ao refinar a imagem. Por favor, verifique o console para mais detalhes.'')
         | Inr allImageUrls \<Rightarrow> Inr allImageUrls)"

section \<open>The session state machine\<close>

datatype AppState = IDLE | PROCESSING | SUCCESS | EDITING | ERROR

text \<open>The component's state: one field for each \<open>useState\<close>.\<close>

record app =
  originalFile :: "File option"
  generatedImageUrls :: "string list"
  selectedImageUrl :: "string option"
  appState :: AppState
  error :: "string option"
  isDragging :: bool
  generationMode :: GenerationMode
  editPrompt :: string
  processingMessage :: string

definition initial_app :: app where
  "initial_app =
     \<lparr>originalFile = None, generatedImageUrls = [], selectedImageUrl = None,
      appState = IDLE, error = None, isDragging = False, generationMode = ECOMMERCE,
      editPrompt = [], processingMessage = []\<rparr>"

text \<open>The value of a \<open>GenerationMode\<close>, a string literal type.\<close>

fun mode_string :: "GenerationMode \<Rightarrow> string" where
  "mode_string ECOMMERCE = ''ECOMMERCE''"
| "mode_string SOCIAL = ''SOCIAL''"

text \<open>
  What a handler does besides setting state: a call of the generation client that it
  awaits, a download, or a click on the hidden file input.
\<close>

datatype call = Call_generateImages File GenerationMode | Call_refineImage string string

datatype effect = Await call | Download string string | OpenFilePicker

text \<open>
  An async handler is two functions: the part that runs up to its \<open>await\<close>, and the part
  that runs once the awaited call has settled, on the state of that moment.
\<close>

definition handleInitialGeneration :: "app \<Rightarrow> File \<Rightarrow> app \<times> effect option" where
  "handleInitialGeneration st f =
     (st\<lparr>appState := PROCESSING,
         processingMessage :=
           (if generationMode st = ECOMMERCE
            then ''Recriando com perfei'' @ [CHR 0xC3, CHR 0xA7, CHR 0xC3, CHR 0xA3] @ ''o...''
            else ''Criando suas fotos ambiente...''),
         error := None,
         generatedImageUrls := [],
         selectedImageUrl := None\<rparr>,
      Some (Await (Call_generateImages f (generationMode st))))"

definition handleInitialGeneration_settled :: "app \<Rightarrow> js_error + string list \<Rightarrow> app" where
  "handleInitialGeneration_settled st result =
     (case result of
        Inr resultDataUrls \<Rightarrow> st\<lparr>generatedImageUrls := resultDataUrls, appState := SUCCESS\<rparr>
      | Inl err \<Rightarrow>
          st\<lparr>error := Some (''A IA n'' @ [CHR 0xC3, CHR 0xA3]
                   @ ''o conseguiu processar a imagem. Por favor, tente novamente ou use uma foto diferente.''),
             appState := ERROR\<rparr>)"

definition handleRefinement :: "app \<Rightarrow> string \<Rightarrow> app \<times> effect option" where
  "handleRefinement st prompt =
     (case selectedImageUrl st of
        None \<Rightarrow> (st, None)
      | Some url \<Rightarrow>
          if \<not> truthy url then (st, None)
          else (st\<lparr>appState := PROCESSING,
                    processingMessage := ''Refinando sua imagem...'',
                    error := None\<rparr>,
                Some (Await (Call_refineImage url prompt))))"

definition handleRefinement_settled :: "app \<Rightarrow> js_error + string list \<Rightarrow> app" where
  "handleRefinement_settled st result =
     (case result of
        Inr resultDataUrls \<Rightarrow>
          st\<lparr>generatedImageUrls := resultDataUrls,
             selectedImageUrl := None,
             editPrompt := [],
             appState := SUCCESS\<rparr>
      | Inl err \<Rightarrow>
          st\<lparr>error := Some (''A IA n'' @ [CHR 0xC3, CHR 0xA3]
                   @ ''o conseguiu refinar a imagem. Por favor, tente novamente.''),
             appState := ERROR\<rparr>)"

definition handleStartOver :: "app \<Rightarrow> app" where
  "handleStartOver st =
     st\<lparr>originalFile := None,
        generatedImageUrls := [],
        selectedImageUrl := None,
        error := None,
        appState := IDLE,
        editPrompt := []\<rparr>"

definition handleFileSelect :: "app \<Rightarrow> File option \<Rightarrow> app \<times> effect option" where
  "handleFileSelect st fo =
     (case fo of
        None \<Rightarrow> (st, None)
      | Some f \<Rightarrow>
          if startsWith (type f) ''image/''
          then handleInitialGeneration ((handleStartOver st)\<lparr>originalFile := Some f\<rparr>) f
          else (st\<lparr>error := Some (''Por favor, selecione um arquivo de imagem v''
                          @ [CHR 0xC3, CHR 0xA1] @ ''lido (JPEG, PNG, WEBP, etc.).''),
                    appState := IDLE\<rparr>,
                None))"

definition handleFileChange :: "app \<Rightarrow> File option \<Rightarrow> app \<times> effect option" where
  "handleFileChange st fo = handleFileSelect st fo"

definition handleDrop :: "app \<Rightarrow> File option \<Rightarrow> app \<times> effect option" where
  "handleDrop st fo =
     (if appState st = IDLE then handleFileSelect (st\<lparr>isDragging := False\<rparr>) fo
      else (st\<lparr>isDragging := False\<rparr>, None))"

definition handleDragEvents :: "app \<Rightarrow> string \<Rightarrow> app" where
  "handleDragEvents st ty =
     (if appState st \<noteq> IDLE then st
      else if ty = ''dragenter'' \<or> ty = ''dragover'' then st\<lparr>isDragging := True\<rparr>
      else if ty = ''dragleave'' then st\<lparr>isDragging := False\<rparr>
      else st)"

definition handleContainerClick :: "app \<Rightarrow> effect option" where
  "handleContainerClick st = (if appState st = IDLE then Some OpenFilePicker else None)"

text \<open>
  \<open>originalFile?.name.split('.').slice(0, -1).join('.') || 'produto'\<close>
\<close>

definition originalName :: "File option \<Rightarrow> string" where
  "originalName fo =
     (case fo of
        None \<Rightarrow> ''produto''
      | Some f \<Rightarrow>
          (let base = join CHR ''.'' (slice_0_m1 (split CHR ''.'' (name f)))
           in if truthy base then base else ''produto''))"

definition handleDownload :: "app \<Rightarrow> effect option" where
  "handleDownload st =
     (if truthy_opt (selectedImageUrl st)
      then (case selectedImageUrl st of
              None \<Rightarrow> None
            | Some url \<Rightarrow>
                Some (Download url
                  (originalName (originalFile st) @ ''-''
                     @ toLowerCase (mode_string (generationMode st)) @ ''-editado.jpeg'')))
      else None)"

definition handleSelectImage :: "app \<Rightarrow> string \<Rightarrow> app" where
  "handleSelectImage st imageUrl = st\<lparr>selectedImageUrl := Some imageUrl, appState := EDITING\<rparr>"

definition handleBackToGrid :: "app \<Rightarrow> app" where
  "handleBackToGrid st = st\<lparr>selectedImageUrl := None, appState := SUCCESS\<rparr>"

definition setGenerationMode :: "GenerationMode \<Rightarrow> app \<Rightarrow> app" where
  "setGenerationMode m st = st\<lparr>generationMode := m\<rparr>"

definition setEditPrompt :: "string \<Rightarrow> app \<Rightarrow> app" where
  "setEditPrompt t st = st\<lparr>editPrompt := t\<rparr>"

text \<open>The fixed instruction sent by the "more variations" button.\<close>

definition variationsPrompt :: string where
  "variationsPrompt = concat
    [''Crie mais 4 varia'', [CHR 0xC3, CHR 0xA7, CHR 0xC3, CHR 0xB5],
     ''es desta imagem, mantendo o mesmo estilo geral, mas com pequenas altera'',
     [CHR 0xC3, CHR 0xA7, CHR 0xC3, CHR 0xB5], ''es na composi'',
     [CHR 0xC3, CHR 0xA7, CHR 0xC3, CHR 0xA3], ''o, ilumina'',
     [CHR 0xC3, CHR 0xA7, CHR 0xC3, CHR 0xA3], ''o e nos elementos de fundo.'']"

text \<open>
  The line under the drop zone, \<open>error && appState === 'IDLE' && <p>{error}</p>\<close>:
  the message it shows, if any.
\<close>

definition inline_error :: "app \<Rightarrow> string option" where
  "inline_error st = (if truthy_opt (error st) \<and> appState st = IDLE then error st else None)"

subsection \<open>What the rendered page lets the user do\<close>

text \<open>
  One event for each handler the markup attaches. \<open>Settle ai\<close> is the awaited call of the
  generation client settling, with the service behaving as \<open>ai\<close>.
\<close>

text \<open>
  How a button is activated. The page makes one difference between the two: while
  \<open>appState === 'PROCESSING'\<close> the wrapper of the mode toggle takes the class
  \<open>pointer-events-none\<close>, which keeps pointer events from its buttons. The buttons are
  not disabled and their handler has no guard, so the keyboard still activates them.
\<close>

datatype activation = Pointer | Keyboard

datatype event =
    InputChange "File option"
  | DropFile "File option"
  | Drag string
  | ClickContainer
  | ClickMode activation GenerationMode
  | ClickImage nat
  | TypePrompt string
  | ClickRefine
  | ClickVariations
  | ClickBack
  | ClickDownload
  | ClickStartOver
  | ClickRetry
  | Settle genai

text \<open>The page and the call it is waiting for.\<close>

record sys =
  ui :: app
  inflight :: "call option"

definition initial_sys :: sys where
  "initial_sys = \<lparr>ui = initial_app, inflight = None\<rparr>"

text \<open>
  Which events the page offers. The mode toggle is rendered in every state; it is out
  of the pointer's reach, and of nothing else, when \<open>appState === 'PROCESSING'\<close>; the
  other buttons come from
  \<open>renderMainModule\<close> and \<open>renderActionButtons\<close>, by \<open>appState\<close>; the hidden file input
  is opened by \<open>handleContainerClick\<close>, in \<open>IDLE\<close> only; the drop zone's handlers are
  always attached.
\<close>

fun available :: "sys \<Rightarrow> event \<Rightarrow> bool" where
  "available s (InputChange fo) = (appState (ui s) = IDLE)"
| "available s (DropFile fo) = True"
| "available s (Drag ty) = True"
| "available s ClickContainer = True"
| "available s (ClickMode a m) = (a = Keyboard \<or> appState (ui s) \<noteq> PROCESSING)"
| "available s (ClickImage i) =
     (appState (ui s) = SUCCESS \<and> i < length (generatedImageUrls (ui s)))"
| "available s (TypePrompt t) = (appState (ui s) = EDITING)"
| "available s ClickRefine =
     (appState (ui s) = EDITING \<and> truthy (trim (editPrompt (ui s))))"
| "available s ClickVariations = (appState (ui s) = EDITING)"
| "available s ClickBack = (appState (ui s) = EDITING)"
| "available s ClickDownload = (appState (ui s) = EDITING)"
| "available s ClickStartOver = (appState (ui s) \<in> set [SUCCESS, EDITING, ERROR])"
| "available s ClickRetry = (appState (ui s) = ERROR)"
| "available s (Settle ai) = (inflight s \<noteq> None)"

definition dispatch :: "sys \<Rightarrow> app \<times> effect option \<Rightarrow> sys" where
  "dispatch s r =
     (case snd r of
        Some (Await c) \<Rightarrow> \<lparr>ui = fst r, inflight = Some c\<rparr>
      | _ \<Rightarrow> s\<lparr>ui := fst r\<rparr>)"

fun fire :: "sys \<Rightarrow> event \<Rightarrow> sys" where
  "fire s (InputChange fo) = dispatch s (handleFileChange (ui s) fo)"
| "fire s (DropFile fo) = dispatch s (handleDrop (ui s) fo)"
| "fire s (Drag ty) = s\<lparr>ui := handleDragEvents (ui s) ty\<rparr>"
| "fire s ClickContainer = s"
| "fire s (ClickMode a m) = s\<lparr>ui := setGenerationMode m (ui s)\<rparr>"
| "fire s (ClickImage i) = s\<lparr>ui := handleSelectImage (ui s) (generatedImageUrls (ui s) ! i)\<rparr>"
| "fire s (TypePrompt t) = s\<lparr>ui := setEditPrompt t (ui s)\<rparr>"
| "fire s ClickRefine = dispatch s (handleRefinement (ui s) (editPrompt (ui s)))"
| "fire s ClickVariations = dispatch s (handleRefinement (ui s) variationsPrompt)"
| "fire s ClickBack = s\<lparr>ui := handleBackToGrid (ui s)\<rparr>"
| "fire s ClickDownload = s"
| "fire s ClickStartOver = s\<lparr>ui := handleStartOver (ui s)\<rparr>"
| "fire s ClickRetry =
     (case originalFile (ui s) of
        None \<Rightarrow> s
      | Some f \<Rightarrow> dispatch s (handleInitialGeneration (ui s) f))"
| "fire s (Settle ai) =
     (case inflight s of
        None \<Rightarrow> s
      | Some (Call_generateImages f m) \<Rightarrow>
          \<lparr>ui = handleInitialGeneration_settled (ui s) (generateImages ai f m), inflight = None\<rparr>
      | Some (Call_refineImage url prompt) \<Rightarrow>
          \<lparr>ui = handleRefinement_settled (ui s) (refineImage ai url prompt), inflight = None\<rparr>)"

definition step :: "sys \<Rightarrow> event \<Rightarrow> sys" where
  "step s e = (if available s e then fire s e else s)"

definition run :: "event list \<Rightarrow> sys" where
  "run es = foldl step initial_sys es"

inductive reachable :: "sys \<Rightarrow> bool" where
  reach_start: "reachable initial_sys"
| reach_step: "reachable s \<Longrightarrow> available s e \<Longrightarrow> reachable (fire s e)"

section \<open>Reading the results\<close>

text \<open>
  The images of a response, said without the loop: one data URL for each candidate
  that has an image part, built from the first such part, in candidate order.
\<close>

definition is_image :: "part \<Rightarrow> bool" where
  "is_image p =
     (case inlineData p of
        None \<Rightarrow> False
      | Some d \<Rightarrow> (case mimeType d of None \<Rightarrow> False | Some m \<Rightarrow> startsWith m ''image/''))"

definition first_image :: "candidate \<Rightarrow> string option" where
  "first_image c =
     (case content c of
        None \<Rightarrow> None
      | Some ps \<Rightarrow>
          (case List.find is_image ps of
             None \<Rightarrow> None
           | Some p \<Rightarrow> map_option data_url (inlineData p)))"

definition images_of :: "response \<Rightarrow> string list" where
  "images_of r = (case candidates r of None \<Rightarrow> [] | Some cs \<Rightarrow> List.map_filter first_image cs)"





text \<open>
  The download name as the specification words it: base name and extension of the
  uploaded file around the mode.
\<close>

definition spec_download_name :: "string \<Rightarrow> GenerationMode \<Rightarrow> string" where
  "spec_download_name original m =
     join CHR ''.'' (butlast (split CHR ''.'' original)) @ ''-'' @ toLowerCase (mode_string m)
       @ ''-editado.'' @ last (split CHR ''.'' original)"

subsection \<open>Sample inputs\<close>

definition photo_png :: File where
  "photo_png = \<lparr>name = ''photo.png'', type = ''image/png''\<rparr>"

definition README :: File where
  "README = \<lparr>name = ''README'', type = ''image/png''\<rparr>"

definition notes_txt :: File where
  "notes_txt = \<lparr>name = ''notes.txt'', type = ''text/plain''\<rparr>"

definition png_candidate :: candidate where
  "png_candidate =
     \<lparr>content = Some [\<lparr>inlineData = Some \<lparr>mimeType = Some ''image/png'', data = Some ''iVBORw0KGgo=''\<rparr>\<rparr>]\<rparr>"

definition jpeg_candidate :: candidate where
  "jpeg_candidate =
     \<lparr>content = Some [\<lparr>inlineData = None\<rparr>,
                      \<lparr>inlineData = Some \<lparr>mimeType = Some ''image/jpeg'', data = Some ''/9j/4AAQ''\<rparr>\<rparr>]\<rparr>"


definition one_image :: response where
  "one_image = \<lparr>candidates = Some [png_candidate]\<rparr>"

definition two_images :: response where
  "two_images = \<lparr>candidates = Some [png_candidate, jpeg_candidate]\<rparr>"




definition service_ok :: genai where
  "service_ok req i = Fulfilled one_image"

definition service_one_rejects :: genai where
  "service_one_rejects req i =
     (if i = 2 then Rejected (Error ''503 Service Unavailable'') else Fulfilled one_image)"


definition service_two_candidates :: genai where
  "service_two_candidates req i = Fulfilled (if i = 0 then two_images else one_image)"




definition to_editing :: "event list" where
  "to_editing = [InputChange (Some photo_png), Settle service_ok, ClickImage 0]"

definition refinement_submitted :: "event list" where
  "refinement_submitted = to_editing @ [ClickVariations]"

definition refinement_failed :: "event list" where
  "refinement_failed = refinement_submitted @ [Settle service_one_rejects]"

definition README_editing :: "event list" where
  "README_editing = [InputChange (Some README), Settle service_ok, ClickImage 0]"

subsection \<open>The invariant of the session\<close>

text \<open>
  What every reachable state satisfies: an image is selected (a non-empty URL) in
  \<open>EDITING\<close> and none is in \<open>IDLE\<close> and \<open>SUCCESS\<close>; a call is awaited in
  \<open>PROCESSING\<close> only, and an initial generation is awaited with nothing selected; no
  generated URL is empty; the grid shown in \<open>SUCCESS\<close> and \<open>EDITING\<close> has four
  images or more.
\<close>

definition session_invariant :: "sys \<Rightarrow> bool" where
  "session_invariant s \<longleftrightarrow>
     (appState (ui s) = EDITING \<longrightarrow> truthy_opt (selectedImageUrl (ui s))) \<and>
     (appState (ui s) = IDLE \<or> appState (ui s) = SUCCESS \<longrightarrow> selectedImageUrl (ui s) = None) \<and>
     (inflight s \<noteq> None \<longrightarrow> appState (ui s) = PROCESSING) \<and>
     (case inflight s of
        Some (Call_generateImages f m) \<Rightarrow> selectedImageUrl (ui s) = None
      | _ \<Rightarrow> True) \<and>
     list_all truthy (generatedImageUrls (ui s)) \<and>
     (appState (ui s) = SUCCESS \<or> appState (ui s) = EDITING
        \<longrightarrow> 4 \<le> length (generatedImageUrls (ui s)))"

section \<open>Facts about the string primitives\<close>

lemma split_not_Nil: "split c xs \<noteq> []"
  by (induction xs) (auto split: list.splits)

lemma split_no_separator: "c \<notin> set xs \<Longrightarrow> split c xs = [xs]"
  by (induction xs) auto

lemma split_append_separator: "split c (b @ c # e) = split c b @ split c e"
  by (induction b) (auto split: list.splits simp: split_not_Nil)

lemma join_split: "join c (split c xs) = xs"
proof (induction xs)
  case Nil
  show ?case by simp
next
  case (Cons x xs)
  obtain y ys where s: "split c xs = y # ys"
    using split_not_Nil [of c xs] by (cases "split c xs") auto
  with Cons show ?case by (cases ys) auto
qed

lemma base_name: "c \<notin> set e \<Longrightarrow> join c (butlast (split c (b @ c # e))) = b"
  by (simp add: split_append_separator split_no_separator join_split butlast_append)

lemma lower_ecommerce: "toLowerCase ''ECOMMERCE'' = ''ecommerce''"
  by code_simp


section \<open>Facts about the generation client\<close>

lemma find_image_find: "find_image ps = Inr r \<Longrightarrow> r = List.find is_image ps"
  by (induction ps) (auto simp: is_image_def split: option.splits if_splits)

lemma candidates_loop_images:
  "candidates_loop cs acc = Inr urls \<Longrightarrow> urls = acc @ List.map_filter first_image cs"
proof (induction cs arbitrary: acc)
  case Nil
  then show ?case by (simp add: List.map_filter_simps)
next
  case (Cons c cs)
  show ?case
  proof (cases "content c")
    case None
    with Cons.prems show ?thesis by simp
  next
    case parts: (Some ps)
    show ?thesis
    proof (cases "find_image ps")
      case (Inl e)
      with parts Cons.prems show ?thesis by simp
    next
      case found: (Inr r)
      then have r: "r = List.find is_image ps" by (rule find_image_find)
      show ?thesis
      proof (cases r)
        case None
        with found parts Cons.prems have "candidates_loop cs acc = Inr urls" by simp
        then have "urls = acc @ List.map_filter first_image cs" by (rule Cons.IH)
        moreover have "first_image c = None"
          using parts r None by (simp add: first_image_def)
        ultimately show ?thesis by (simp add: List.map_filter_simps)
      next
        case (Some p)
        show ?thesis
        proof (cases "inlineData p")
          case None
          with Some found parts Cons.prems show ?thesis by simp
        next
          case inline: (Some d)
          with Some found parts Cons.prems
          have "candidates_loop cs (acc @ [data_url d]) = Inr urls" by simp
          then have "urls = (acc @ [data_url d]) @ List.map_filter first_image cs"
            by (rule Cons.IH)
          moreover have "List.find is_image ps = Some p"
            using r Some by simp
          then have "first_image c = Some (data_url d)"
            using parts inline by (simp add: first_image_def)
          ultimately show ?thesis by (simp add: List.map_filter_simps)
        qed
      qed
    qed
  qed
qed

lemma processApiResponse_images:
  "processApiResponse r = Inr urls \<Longrightarrow> urls = images_of r \<and> urls \<noteq> []"
  by (auto simp: processApiResponse_def images_of_def List.map_filter_simps
           dest!: candidates_loop_images split: option.splits sum.splits if_splits)

lemma flatMap_images:
  "flatMap processApiResponse rs = Inr urls \<Longrightarrow>
     urls = concat (map images_of rs) \<and> (\<forall>r \<in> set rs. images_of r \<noteq> [])"
proof (induction rs arbitrary: urls)
  case Nil
  then show ?case by simp
next
  case (Cons r rs)
  then show ?case
    by (auto split: sum.splits dest!: processApiResponse_images)
qed

lemma Promise_all_fulfilled: "Promise_all ps = Inr rs \<Longrightarrow> ps = map Fulfilled rs"
proof (induction ps arbitrary: rs)
  case Nil
  then show ?case by simp
next
  case (Cons p ps)
  then show ?case by (cases p) (auto split: sum.splits)
qed

lemma Promise_all_rejected: "Rejected e \<in> set ps \<Longrightarrow> \<exists>e'. Promise_all ps = Inl e'"
proof (induction ps)
  case Nil
  then show ?case by simp
next
  case (Cons p ps)
  then show ?case by (cases p) (auto split: sum.splits)
qed

lemma generateImages_cases:
  "generateImages ai f m = Inr batch \<Longrightarrow>
     \<exists>rs. map (ai (generateContent_params (FileToGenerativePart f)
                   (if m = ECOMMERCE then ecommercePrompt else socialPrompt))) [0..<4]
            = map Fulfilled rs
        \<and> flatMap processApiResponse rs = Inr batch \<and> 4 \<le> length batch"
  unfolding generateImages_def Let_def
  by (auto split: sum.splits if_splits dest!: Promise_all_fulfilled)

lemma refineImage_cases:
  "refineImage ai url prompt = Inr batch \<Longrightarrow>
     \<exists>rs. map (ai (generateContent_params (DataUrlToGenerativePart url) prompt)) [0..<4]
            = map Fulfilled rs
        \<and> flatMap processApiResponse rs = Inr batch \<and> 4 \<le> length batch"
  unfolding refineImage_def Let_def
  by (auto split: sum.splits if_splits dest!: Promise_all_fulfilled)

lemma generateImages_error:
  "generateImages ai f m = Inl e \<Longrightarrow>
     e = Error ''Falha ao gerar as imagens. Por favor, verifique o console para mais detalhes.''"
  unfolding generateImages_def Let_def
  by (auto split: sum.splits if_splits)

lemma refineImage_error:
  "refineImage ai url prompt = Inl e \<Longrightarrow>
     e = Error ''Falha ao refinar a imagem. Por favor, verifique o console para mais detalhes.''"
  unfolding refineImage_def Let_def
  by (auto split: sum.splits if_splits)

lemma data_url_truthy: "truthy (data_url d)"
  by (simp add: truthy_def data_url_def)

lemma first_image_truthy: "first_image c = Some u \<Longrightarrow> truthy u"
  by (auto simp: first_image_def data_url_truthy split: option.splits)

lemma images_of_truthy: "u \<in> set (images_of r) \<Longrightarrow> truthy u"
  by (auto simp: images_of_def List.map_filter_def first_image_truthy split: option.splits)

lemma generateImages_truthy: "generateImages ai f m = Inr batch \<Longrightarrow> u \<in> set batch \<Longrightarrow> truthy u"
  by (auto dest!: generateImages_cases flatMap_images images_of_truthy)

lemma refineImage_truthy: "refineImage ai url prompt = Inr batch \<Longrightarrow> u \<in> set batch \<Longrightarrow> truthy u"
  by (auto dest!: refineImage_cases flatMap_images images_of_truthy)

lemma fan_out_length: "map g [0..<4] = map Fulfilled rs \<Longrightarrow> length rs = 4"
  by (metis diff_zero length_map length_upt)

lemma fan_out_nth: "map g [0..<4] = map Fulfilled rs \<Longrightarrow> i < 4 \<Longrightarrow> g i = Fulfilled (rs ! i)"
proof -
  assume m: "map g [0..<4] = map Fulfilled rs" and i: "i < 4"
  have "length rs = 4" using m by (rule fan_out_length)
  moreover have "map g [0..<4] ! i = g i" using i by simp
  ultimately show ?thesis using m i by simp
qed

lemma single_images_length:
  assumes "\<forall>r \<in> set rs. length (images_of r) = 1"
  shows "length (concat (map images_of rs)) = length rs"
  using assms by (induction rs) auto

lemma batch_of_four:
  assumes m: "map g [0..<4] = map Fulfilled rs"
    and b: "flatMap processApiResponse rs = Inr batch"
    and one: "\<forall>i<4. \<forall>r. g i = Fulfilled r \<longrightarrow> length (images_of r) \<le> 1"
  shows "length batch = 4"
proof -
  have len: "length rs = 4" using m by (rule fan_out_length)
  from b have batch: "batch = concat (map images_of rs)"
    and ne: "\<forall>r \<in> set rs. images_of r \<noteq> []"
    by (auto dest: flatMap_images)
  have "\<forall>r \<in> set rs. length (images_of r) = 1"
  proof
    fix r assume "r \<in> set rs"
    then obtain i where i: "i < length rs" and r: "rs ! i = r"
      by (auto simp: in_set_conv_nth)
    have "g i = Fulfilled r" using fan_out_nth [OF m, of i] i len r by simp
    then have "length (images_of r) \<le> 1" using one i len by auto
    moreover have "images_of r \<noteq> []" using ne \<open>r \<in> set rs\<close> by blast
    ultimately show "length (images_of r) = 1" by (cases "images_of r") auto
  qed
  then show ?thesis using batch len by (simp add: single_images_length)
qed

lemma fan_out_rejected:
  assumes "i < 4" and "g i = Rejected e"
  shows "\<exists>e'. Promise_all (map g [0..<4]) = Inl e'"
proof -
  from assms(1) have "i \<in> set [0..<4]" by simp
  then have "g i \<in> g ` set [0..<4]" by (rule imageI)
  then have "Rejected e \<in> set (map g [0..<4])" by (simp only: assms(2) set_map)
  then show ?thesis by (rule Promise_all_rejected)
qed












section \<open>Reachable states of the session\<close>

lemmas handler_defs =
  dispatch_def handleFileChange_def handleFileSelect_def handleInitialGeneration_def
  handleStartOver_def handleDrop_def handleDragEvents_def setGenerationMode_def
  handleSelectImage_def setEditPrompt_def handleRefinement_def handleBackToGrid_def
  handleInitialGeneration_settled_def handleRefinement_settled_def

lemma invariant_initial: "session_invariant initial_sys"
  by (simp add: session_invariant_def initial_sys_def initial_app_def)

lemma invariant_fire:
  assumes "session_invariant s" and "available s e"
  shows "session_invariant (fire s e)"
proof (cases e)
  case (InputChange fo)
  with assms show ?thesis
    by (auto simp: session_invariant_def handler_defs truthy_opt_def
             split: option.splits call.splits)
next
  case (DropFile fo)
  with assms show ?thesis
    by (auto simp: session_invariant_def handler_defs truthy_opt_def
             split: option.splits call.splits)
next
  case (Drag ty)
  with assms show ?thesis
    by (auto simp: session_invariant_def handler_defs split: option.splits call.splits)
next
  case ClickContainer
  with assms show ?thesis by simp
next
  case (ClickMode a m)
  with assms show ?thesis
    by (auto simp: session_invariant_def handler_defs split: option.splits call.splits)
next
  case (ClickImage i)
  with assms show ?thesis
    by (auto simp: session_invariant_def handler_defs truthy_opt_def list_all_length
             split: option.splits call.splits)
next
  case (TypePrompt t)
  with assms show ?thesis
    by (auto simp: session_invariant_def handler_defs split: option.splits call.splits)
next
  case ClickRefine
  with assms show ?thesis
    by (auto simp: session_invariant_def handler_defs truthy_opt_def
             split: option.splits call.splits)
next
  case ClickVariations
  with assms show ?thesis
    by (auto simp: session_invariant_def handler_defs truthy_opt_def
             split: option.splits call.splits)
next
  case ClickBack
  with assms show ?thesis
    by (auto simp: session_invariant_def handler_defs split: option.splits call.splits)
next
  case ClickDownload
  with assms show ?thesis by simp
next
  case ClickStartOver
  with assms show ?thesis
    by (auto simp: session_invariant_def handler_defs split: option.splits call.splits)
next
  case ClickRetry
  with assms show ?thesis
    by (auto simp: session_invariant_def handler_defs split: option.splits call.splits)
next
  case (Settle ai)
  with assms show ?thesis
    by (auto simp: session_invariant_def handler_defs list_all_iff
             split: option.splits call.splits sum.splits
             dest: generateImages_truthy refineImage_truthy generateImages_cases refineImage_cases)
qed

lemma reachable_invariant: "reachable s \<Longrightarrow> session_invariant s"
  by (induction rule: reachable.induct) (auto intro: invariant_initial invariant_fire)

lemma run_snoc: "run (es @ [e]) = step (run es) e"
  by (simp add: run_def)

lemma reachable_run: "reachable (run es)"
proof (induction es rule: rev_induct)
  case Nil
  show ?case by (simp add: run_def reachable.reach_start)
next
  case (snoc e es)
  then show ?case by (auto simp: run_snoc step_def intro: reachable.reach_step)
qed

section \<open>The batch a call returns\<close>

text \<open>
  C1 (as the code has it). Every call of \<open>generateImages\<close> or \<open>refineImage\<close> either
  returns a batch of at least 4 images or fails with the operation's generic error: a
  batch of fewer than 4 images is never returned. The batch has exactly 4 images when no
  response carries more than one image-bearing candidate.
\<close>

theorem batch_at_least_four:
  "(case generateImages ai f m of
      Inr batch \<Rightarrow> 4 \<le> length batch
    | Inl e \<Rightarrow> e = Error ''Falha ao gerar as imagens. Por favor, verifique o console para mais detalhes.'')
   \<and> (case refineImage ai url prompt of
      Inr batch \<Rightarrow> 4 \<le> length batch
    | Inl e \<Rightarrow> e = Error ''Falha ao refinar a imagem. Por favor, verifique o console para mais detalhes.'')
   \<and> (generateImages ai f m = Inr batch
        \<and> (\<forall>i<4. \<forall>r. ai (generateContent_params (FileToGenerativePart f)
                           (if m = ECOMMERCE then ecommercePrompt else socialPrompt)) i = Fulfilled r
                 \<longrightarrow> length (images_of r) \<le> 1)
      \<longrightarrow> length batch = 4)
   \<and> (refineImage ai url prompt = Inr batch'
        \<and> (\<forall>i<4. \<forall>r. ai (generateContent_params (DataUrlToGenerativePart url) prompt) i = Fulfilled r
                 \<longrightarrow> length (images_of r) \<le> 1)
      \<longrightarrow> length batch' = 4)"
proof (intro conjI impI)
  show "case generateImages ai f m of
      Inr batch \<Rightarrow> 4 \<le> length batch
    | Inl e \<Rightarrow> e = Error ''Falha ao gerar as imagens. Por favor, verifique o console para mais detalhes.''"
    by (auto split: sum.splits dest: generateImages_cases generateImages_error)
  show "case refineImage ai url prompt of
      Inr batch \<Rightarrow> 4 \<le> length batch
    | Inl e \<Rightarrow> e = Error ''Falha ao refinar a imagem. Por favor, verifique o console para mais detalhes.''"
    by (auto split: sum.splits dest: refineImage_cases refineImage_error)
next
  assume a: "generateImages ai f m = Inr batch
        \<and> (\<forall>i<4. \<forall>r. ai (generateContent_params (FileToGenerativePart f)
                           (if m = ECOMMERCE then ecommercePrompt else socialPrompt)) i = Fulfilled r
                 \<longrightarrow> length (images_of r) \<le> 1)"
  then obtain rs where m: "map (ai (generateContent_params (FileToGenerativePart f)
                   (if m = ECOMMERCE then ecommercePrompt else socialPrompt))) [0..<4]
            = map Fulfilled rs" and b: "flatMap processApiResponse rs = Inr batch"
    using generateImages_cases by blast
  from a show "length batch = 4" by (intro batch_of_four [OF m b]) simp
next
  assume a: "refineImage ai url prompt = Inr batch'
        \<and> (\<forall>i<4. \<forall>r. ai (generateContent_params (DataUrlToGenerativePart url) prompt) i = Fulfilled r
                 \<longrightarrow> length (images_of r) \<le> 1)"
  then obtain rs where m: "map (ai (generateContent_params (DataUrlToGenerativePart url) prompt)) [0..<4]
            = map Fulfilled rs" and b: "flatMap processApiResponse rs = Inr batch'"
    using refineImage_cases by blast
  from a show "length batch' = 4" by (intro batch_of_four [OF m b]) simp
qed

text \<open>
  Four responses with one image-bearing candidate each: the call returns, with a batch
  of exactly 4.
\<close>

theorem batch_at_least_four_witness:
  "generateImages service_ok photo_png ECOMMERCE =
     Inr (replicate 4 ''data:image/png;base64,iVBORw0KGgo='')
   \<and> length (images_of one_image) \<le> 1
   \<and> length (replicate 4 ''data:image/png;base64,iVBORw0KGgo='') = 4"
proof -
  have g: "generateImages service_ok photo_png ECOMMERCE =
     Inr (replicate 4 ''data:image/png;base64,iVBORw0KGgo='')"
    by code_simp
  have one: "length (images_of one_image) \<le> 1"
    by code_simp
  then have h: "\<forall>i<4. \<forall>r. service_ok (generateContent_params (FileToGenerativePart photo_png)
       (if ECOMMERCE = ECOMMERCE then ecommercePrompt else socialPrompt)) i = Fulfilled r
       \<longrightarrow> length (images_of r) \<le> 1"
    by (simp add: service_ok_def)
  from batch_at_least_four [of service_ok photo_png ECOMMERCE _ _
      "replicate 4 ''data:image/png;base64,iVBORw0KGgo=''"] g h
  have "length (replicate 4 ''data:image/png;base64,iVBORw0KGgo='') = 4"
    by blast
  with g one show ?thesis by blast
qed

text \<open>
  C1 as the specification states it fails: when the first response carries two
  image-bearing candidates and the other three carry one, \<open>generateImages\<close> returns a
  batch of 5 images.
\<close>

theorem batch_of_five:
  "generateImages service_two_candidates photo_png ECOMMERCE =
     Inr [''data:image/png;base64,iVBORw0KGgo='', ''data:image/jpeg;base64,/9j/4AAQ'',
          ''data:image/png;base64,iVBORw0KGgo='', ''data:image/png;base64,iVBORw0KGgo='',
          ''data:image/png;base64,iVBORw0KGgo='']
   \<and> length [''data:image/png;base64,iVBORw0KGgo='', ''data:image/jpeg;base64,/9j/4AAQ'',
          ''data:image/png;base64,iVBORw0KGgo='', ''data:image/png;base64,iVBORw0KGgo='',
          ''data:image/png;base64,iVBORw0KGgo=''] \<noteq> (4::nat)"
  by code_simp

section \<open>Aggregating the four responses\<close>




text \<open>
  C4. If the request at any position \<open>i < 4\<close> of the fan-out rejects, \<open>generateImages\<close>
  and \<open>refineImage\<close> fail with their generic error and return no image; the handler then
  moves to \<open>ERROR\<close>, leaves the stored batch as it was, and sets a message that is not
  the same on the initial-generation path as on the refinement path.
\<close>

theorem one_rejection_fails_the_call:
  "i < 4 \<Longrightarrow>
     (ai (generateContent_params (FileToGenerativePart f)
            (if m = ECOMMERCE then ecommercePrompt else socialPrompt)) i = Rejected e \<longrightarrow>
        generateImages ai f m =
          Inl (Error ''Falha ao gerar as imagens. Por favor, verifique o console para mais detalhes.'')
        \<and> appState (handleInitialGeneration_settled st (generateImages ai f m)) = ERROR
        \<and> generatedImageUrls (handleInitialGeneration_settled st (generateImages ai f m))
            = generatedImageUrls st
        \<and> error (handleInitialGeneration_settled st (generateImages ai f m)) =
            Some (''A IA n'' @ [CHR 0xC3, CHR 0xA3]
              @ ''o conseguiu processar a imagem. Por favor, tente novamente ou use uma foto diferente.''))
     \<and> (ai (generateContent_params (DataUrlToGenerativePart url) prompt) i = Rejected e \<longrightarrow>
        refineImage ai url prompt =
          Inl (Error ''Falha ao refinar a imagem. Por favor, verifique o console para mais detalhes.'')
        \<and> appState (handleRefinement_settled st (refineImage ai url prompt)) = ERROR
        \<and> generatedImageUrls (handleRefinement_settled st (refineImage ai url prompt))
            = generatedImageUrls st
        \<and> error (handleRefinement_settled st (refineImage ai url prompt)) =
            Some (''A IA n'' @ [CHR 0xC3, CHR 0xA3]
              @ ''o conseguiu refinar a imagem. Por favor, tente novamente.''))
     \<and> ''A IA n'' @ [CHR 0xC3, CHR 0xA3]
          @ ''o conseguiu processar a imagem. Por favor, tente novamente ou use uma foto diferente.''
        \<noteq> ''A IA n'' @ [CHR 0xC3, CHR 0xA3]
          @ ''o conseguiu refinar a imagem. Por favor, tente novamente.''"
proof (intro conjI impI)
  assume i: "i < 4"
    and r: "ai (generateContent_params (FileToGenerativePart f)
            (if m = ECOMMERCE then ecommercePrompt else socialPrompt)) i = Rejected e"
  from fan_out_rejected [where g = "ai (generateContent_params (FileToGenerativePart f)
            (if m = ECOMMERCE then ecommercePrompt else socialPrompt))", OF i r]
  show g: "generateImages ai f m =
          Inl (Error ''Falha ao gerar as imagens. Por favor, verifique o console para mais detalhes.'')"
    unfolding generateImages_def Let_def by auto
  show "appState (handleInitialGeneration_settled st (generateImages ai f m)) = ERROR"
    "generatedImageUrls (handleInitialGeneration_settled st (generateImages ai f m))
            = generatedImageUrls st"
    "error (handleInitialGeneration_settled st (generateImages ai f m)) =
            Some (''A IA n'' @ [CHR 0xC3, CHR 0xA3]
              @ ''o conseguiu processar a imagem. Por favor, tente novamente ou use uma foto diferente.'')"
    by (simp_all add: g handleInitialGeneration_settled_def)
next
  assume i: "i < 4"
    and r: "ai (generateContent_params (DataUrlToGenerativePart url) prompt) i = Rejected e"
  from fan_out_rejected [where g = "ai (generateContent_params (DataUrlToGenerativePart url) prompt)",
      OF i r]
  show g: "refineImage ai url prompt =
          Inl (Error ''Falha ao refinar a imagem. Por favor, verifique o console para mais detalhes.'')"
    unfolding refineImage_def Let_def by auto
  show "appState (handleRefinement_settled st (refineImage ai url prompt)) = ERROR"
    "generatedImageUrls (handleRefinement_settled st (refineImage ai url prompt))
            = generatedImageUrls st"
    "error (handleRefinement_settled st (refineImage ai url prompt)) =
            Some (''A IA n'' @ [CHR 0xC3, CHR 0xA3]
              @ ''o conseguiu refinar a imagem. Por favor, tente novamente.'')"
    by (simp_all add: g handleRefinement_settled_def)
next
  show "''A IA n'' @ [CHR 0xC3, CHR 0xA3]
          @ ''o conseguiu processar a imagem. Por favor, tente novamente ou use uma foto diferente.''
        \<noteq> ''A IA n'' @ [CHR 0xC3, CHR 0xA3]
          @ ''o conseguiu refinar a imagem. Por favor, tente novamente.''"
    by simp
qed

text \<open>The third of the four requests rejects with a 503.\<close>

theorem one_rejection_fails_the_call_witness:
  "(2::nat) < 4
   \<and> service_one_rejects (generateContent_params (FileToGenerativePart photo_png) ecommercePrompt) 2
       = Rejected (Error ''503 Service Unavailable'')
   \<and> generateImages service_one_rejects photo_png ECOMMERCE =
       Inl (Error ''Falha ao gerar as imagens. Por favor, verifique o console para mais detalhes.'')
   \<and> service_one_rejects (generateContent_params
         (DataUrlToGenerativePart ''data:image/png;base64,iVBORw0KGgo='') variationsPrompt) 2
       = Rejected (Error ''503 Service Unavailable'')
   \<and> refineImage service_one_rejects ''data:image/png;base64,iVBORw0KGgo='' variationsPrompt =
       Inl (Error ''Falha ao refinar a imagem. Por favor, verifique o console para mais detalhes.'')"
proof -
  have i: "(2::nat) < 4" by simp
  have r: "\<And>req. service_one_rejects req 2 = Rejected (Error ''503 Service Unavailable'')"
    by (simp add: service_one_rejects_def)
  from one_rejection_fails_the_call [OF i, of service_one_rejects photo_png ECOMMERCE
      "Error ''503 Service Unavailable''" _ "''data:image/png;base64,iVBORw0KGgo=''" variationsPrompt]
  show ?thesis using r by simp
qed

section \<open>The session\<close>

text \<open>
  C3 (as the code has it). In every reachable state an image is selected when
  \<open>appState = EDITING\<close>, and none is selected when \<open>appState\<close> is \<open>IDLE\<close> or
  \<open>SUCCESS\<close>. Submitting a refinement and a refinement that fails both leave
  \<open>selectedImageUrl\<close> as it was; only a refinement that succeeds clears it.
\<close>

theorem selection_by_state:
  "reachable s \<Longrightarrow>
     (appState (ui s) = EDITING \<longrightarrow> selectedImageUrl (ui s) \<noteq> None)
     \<and> (appState (ui s) = IDLE \<or> appState (ui s) = SUCCESS \<longrightarrow> selectedImageUrl (ui s) = None)
     \<and> selectedImageUrl (fst (handleRefinement st prompt)) = selectedImageUrl st
     \<and> selectedImageUrl (handleRefinement_settled st (Inl e)) = selectedImageUrl st
     \<and> selectedImageUrl (handleRefinement_settled st (Inr batch)) = None"
proof -
  assume "reachable s"
  then have "session_invariant s" by (rule reachable_invariant)
  then have "(appState (ui s) = EDITING \<longrightarrow> selectedImageUrl (ui s) \<noteq> None)
     \<and> (appState (ui s) = IDLE \<or> appState (ui s) = SUCCESS \<longrightarrow> selectedImageUrl (ui s) = None)"
    by (auto simp: session_invariant_def truthy_opt_def split: option.splits)
  moreover have "selectedImageUrl (fst (handleRefinement st prompt)) = selectedImageUrl st"
    by (simp add: handleRefinement_def split: option.splits)
  moreover have "selectedImageUrl (handleRefinement_settled st (Inl e)) = selectedImageUrl st"
    "selectedImageUrl (handleRefinement_settled st (Inr batch)) = None"
    by (simp_all add: handleRefinement_settled_def)
  ultimately show ?thesis by blast
qed

text \<open>Upload, four images back, first image picked: \<open>EDITING\<close>, with an image selected.\<close>

theorem selection_by_state_witness:
  "reachable (run to_editing)
   \<and> appState (ui (run to_editing)) = EDITING
   \<and> selectedImageUrl (ui (run to_editing)) \<noteq> None"
proof -
  have r: "reachable (run to_editing)" by (rule reachable_run)
  have e: "appState (ui (run to_editing)) = EDITING" by code_simp
  from selection_by_state [OF r] e show ?thesis using r by blast
qed

text \<open>
  C3 as the specification states it fails. After "more variations" is clicked in
  \<open>EDITING\<close> the state is \<open>PROCESSING\<close> and the image is still selected; when that
  refinement fails the state is \<open>ERROR\<close> and the image is still selected.
\<close>

theorem selection_kept_by_refinement:
  "reachable (run refinement_submitted)
   \<and> appState (ui (run refinement_submitted)) = PROCESSING
   \<and> selectedImageUrl (ui (run refinement_submitted)) = Some ''data:image/png;base64,iVBORw0KGgo=''
   \<and> \<not> (selectedImageUrl (ui (run refinement_submitted)) \<noteq> None
          \<longleftrightarrow> appState (ui (run refinement_submitted)) = EDITING)
   \<and> reachable (run refinement_failed)
   \<and> appState (ui (run refinement_failed)) = ERROR
   \<and> selectedImageUrl (ui (run refinement_failed)) = Some ''data:image/png;base64,iVBORw0KGgo=''"
proof -
  have a: "appState (ui (run refinement_submitted)) = PROCESSING" by code_simp
  have b: "selectedImageUrl (ui (run refinement_submitted)) = Some ''data:image/png;base64,iVBORw0KGgo=''"
    by code_simp
  have c: "appState (ui (run refinement_failed)) = ERROR" by code_simp
  have d: "selectedImageUrl (ui (run refinement_failed)) = Some ''data:image/png;base64,iVBORw0KGgo=''"
    by code_simp
  show ?thesis using a b c d by (simp add: reachable_run)
qed




section \<open>The download name\<close>

lemma originalName_base:
  assumes "name f = base @ CHR ''.'' # ext" and "CHR ''.'' \<notin> set ext" and "base \<noteq> []"
  shows "originalName (Some f) = base"
  using assms by (simp add: originalName_def slice_0_m1_def base_name truthy_def)

text \<open>
  C6 (as the code has it). In every reachable \<open>EDITING\<close> state whose uploaded file
  is named \<open>base.ext\<close> (\<open>ext\<close> without a dot, \<open>base\<close> not empty), the download is
  emitted for the selected image under the name \<open>base-mode-editado.jpeg\<close>, with the
  mode in lower case: the extension is always \<open>jpeg\<close>, whatever \<open>ext\<close> is. With the
  mode \<open>ECOMMERCE\<close> the name is \<open>base-ecommerce-editado.jpeg\<close>.
\<close>

theorem download_name_jpeg:
  assumes "reachable s" and "appState (ui s) = EDITING"
    and "originalFile (ui s) = Some f"
    and "name f = base @ CHR ''.'' # ext" and "CHR ''.'' \<notin> set ext" and "base \<noteq> []"
  shows "\<exists>url. selectedImageUrl (ui s) = Some url
         \<and> handleDownload (ui s) =
             Some (Download url
               (base @ ''-'' @ toLowerCase (mode_string (generationMode (ui s))) @ ''-editado.jpeg''))
         \<and> (generationMode (ui s) = ECOMMERCE \<longrightarrow>
              handleDownload (ui s) = Some (Download url (base @ ''-ecommerce-editado.jpeg'')))"
proof -
  from assms(1) have "session_invariant s" by (rule reachable_invariant)
  with assms(2) obtain url where u: "selectedImageUrl (ui s) = Some url" and t: "url \<noteq> []"
    by (auto simp: session_invariant_def truthy_opt_def truthy_def split: option.splits)
  have n: "originalName (originalFile (ui s)) = base"
    using assms(3-6) by (simp add: originalName_base)
  have d: "handleDownload (ui s) =
           Some (Download url
             (base @ ''-'' @ toLowerCase (mode_string (generationMode (ui s))) @ ''-editado.jpeg''))"
    using u t n by (simp add: handleDownload_def truthy_opt_def truthy_def)
  then have "generationMode (ui s) = ECOMMERCE \<longrightarrow>
      handleDownload (ui s) = Some (Download url (base @ ''-ecommerce-editado.jpeg''))"
    by (simp add: lower_ecommerce)
  with u d show ?thesis by blast
qed

text \<open>\<open>photo.png\<close> uploaded in the mode \<open>ECOMMERCE\<close>, first image picked.\<close>

theorem download_name_jpeg_witness:
  "reachable (run to_editing)
   \<and> appState (ui (run to_editing)) = EDITING
   \<and> originalFile (ui (run to_editing)) = Some photo_png
   \<and> name photo_png = ''photo'' @ CHR ''.'' # ''png''
   \<and> generationMode (ui (run to_editing)) = ECOMMERCE
   \<and> selectedImageUrl (ui (run to_editing)) = Some ''data:image/png;base64,iVBORw0KGgo=''
   \<and> handleDownload (ui (run to_editing)) =
       Some (Download ''data:image/png;base64,iVBORw0KGgo='' (''photo'' @ ''-ecommerce-editado.jpeg''))"
proof -
  have r: "reachable (run to_editing)" by (rule reachable_run)
  have e: "appState (ui (run to_editing)) = EDITING" by code_simp
  have a: "selectedImageUrl (ui (run to_editing)) = Some ''data:image/png;base64,iVBORw0KGgo=''"
    by code_simp
  have b: "originalFile (ui (run to_editing)) = Some photo_png" by code_simp
  have c: "name photo_png = ''photo'' @ CHR ''.'' # ''png''" by (simp add: photo_png_def)
  have m: "generationMode (ui (run to_editing)) = ECOMMERCE" by code_simp
  have "handleDownload (ui (run to_editing)) =
       Some (Download ''data:image/png;base64,iVBORw0KGgo='' (''photo'' @ ''-ecommerce-editado.jpeg''))"
    using download_name_jpeg [OF r e b c] a m by auto
  with r e a b c m show ?thesis by blast
qed

text \<open>
  C6 as the specification states it fails: for \<open>photo.png\<close> the name built from the
  file's own base name and extension is \<open>photo-ecommerce-editado.png\<close>, and the
  download is emitted as \<open>photo-ecommerce-editado.jpeg\<close>.
\<close>

theorem download_extension_not_from_file:
  "appState (ui (run to_editing)) = EDITING
   \<and> originalFile (ui (run to_editing)) = Some photo_png
   \<and> generationMode (ui (run to_editing)) = ECOMMERCE
   \<and> handleDownload (ui (run to_editing)) =
       Some (Download ''data:image/png;base64,iVBORw0KGgo='' ''photo-ecommerce-editado.jpeg'')
   \<and> spec_download_name (name photo_png) ECOMMERCE = ''photo-ecommerce-editado.png''
   \<and> handleDownload (ui (run to_editing)) \<noteq>
       Some (Download ''data:image/png;base64,iVBORw0KGgo=''
              (spec_download_name (name photo_png) ECOMMERCE))"
  by code_simp

text \<open>
  C10. When the download runs for a selected image and no file is stored, or the stored
  file's name has no dot, the base name is the literal \<open>produto\<close>: the download's name
  is \<open>produto-mode-editado.jpeg\<close>, with the mode in lower case.
\<close>

theorem download_name_fallback:
  assumes "selectedImageUrl st = Some url" and "url \<noteq> []"
    and "originalFile st = None
         \<or> (\<exists>f. originalFile st = Some f \<and> CHR ''.'' \<notin> set (name f))"
  shows "handleDownload st =
           Some (Download url
             (''produto-'' @ toLowerCase (mode_string (generationMode st)) @ ''-editado.jpeg''))"
proof -
  have "originalName (originalFile st) = ''produto''"
    using assms(3)
    by (auto simp: originalName_def slice_0_m1_def split_no_separator truthy_def)
  then show ?thesis
    using assms(1,2) by (simp add: handleDownload_def truthy_opt_def truthy_def)
qed

text \<open>A file named \<open>README\<close>, and the same state with no file stored.\<close>

theorem download_name_fallback_witness:
  "selectedImageUrl (ui (run README_editing)) = Some ''data:image/png;base64,iVBORw0KGgo=''
   \<and> originalFile (ui (run README_editing)) = Some README
   \<and> CHR ''.'' \<notin> set (name README)
   \<and> handleDownload (ui (run README_editing)) =
       Some (Download ''data:image/png;base64,iVBORw0KGgo='' ''produto-ecommerce-editado.jpeg'')
   \<and> handleDownload ((ui (run README_editing))\<lparr>originalFile := None\<rparr>) =
       Some (Download ''data:image/png;base64,iVBORw0KGgo='' ''produto-ecommerce-editado.jpeg'')"
proof -
  have a: "selectedImageUrl (ui (run README_editing)) = Some ''data:image/png;base64,iVBORw0KGgo=''"
    by code_simp
  have b: "originalFile (ui (run README_editing)) = Some README" by code_simp
  have c: "CHR ''.'' \<notin> set (name README)" by code_simp
  have m: "generationMode (ui (run README_editing)) = ECOMMERCE" by code_simp
  have "handleDownload (ui (run README_editing)) =
       Some (Download ''data:image/png;base64,iVBORw0KGgo='' ''produto-ecommerce-editado.jpeg'')"
    using download_name_fallback [of "ui (run README_editing)", OF a] b c m
    by (simp add: lower_ecommerce)
  moreover have "handleDownload ((ui (run README_editing))\<lparr>originalFile := None\<rparr>) =
       Some (Download ''data:image/png;base64,iVBORw0KGgo='' ''produto-ecommerce-editado.jpeg'')"
    using download_name_fallback [of "(ui (run README_editing))\<lparr>originalFile := None\<rparr>"] a m
    by (simp add: lower_ecommerce)
  ultimately show ?thesis using a b c by blast
qed

section \<open>Resetting, rejecting a file, refining with nothing selected\<close>

text \<open>
  C7. From any state, "start over" leaves no uploaded file, an empty batch, no selected
  image and no error message, and sets \<open>appState\<close> to \<open>IDLE\<close>; the button that starts
  over runs exactly this handler.
\<close>

theorem start_over_resets:
  "originalFile (handleStartOver st) = None
   \<and> generatedImageUrls (handleStartOver st) = []
   \<and> selectedImageUrl (handleStartOver st) = None
   \<and> error (handleStartOver st) = None
   \<and> appState (handleStartOver st) = IDLE
   \<and> ui (fire s ClickStartOver) = handleStartOver (ui s)"
  by (simp add: handleStartOver_def)

text \<open>
  C8. In \<open>IDLE\<close>, a file whose type does not start with \<open>image/\<close>, selected or dropped,
  leaves \<open>appState\<close> at \<open>IDLE\<close>, sets the message that the line under the drop zone
  shows, leaves the stored file as it was, and starts no call of the generation client.
\<close>

theorem invalid_file_stays_idle:
  assumes "appState (ui s) = IDLE" and "\<not> startsWith (type f) ''image/''"
  shows "appState (ui (fire s (InputChange (Some f)))) = IDLE
    \<and> inline_error (ui (fire s (InputChange (Some f)))) =
        Some (''Por favor, selecione um arquivo de imagem v''
               @ [CHR 0xC3, CHR 0xA1] @ ''lido (JPEG, PNG, WEBP, etc.).'')
    \<and> originalFile (ui (fire s (InputChange (Some f)))) = originalFile (ui s)
    \<and> snd (handleFileChange (ui s) (Some f)) = None
    \<and> inflight (fire s (InputChange (Some f))) = inflight s
    \<and> appState (ui (fire s (DropFile (Some f)))) = IDLE
    \<and> inline_error (ui (fire s (DropFile (Some f)))) =
        Some (''Por favor, selecione um arquivo de imagem v''
               @ [CHR 0xC3, CHR 0xA1] @ ''lido (JPEG, PNG, WEBP, etc.).'')
    \<and> originalFile (ui (fire s (DropFile (Some f)))) = originalFile (ui s)
    \<and> snd (handleDrop (ui s) (Some f)) = None
    \<and> inflight (fire s (DropFile (Some f))) = inflight s"
  using assms
  by (simp add: dispatch_def handleFileChange_def handleDrop_def handleFileSelect_def
        inline_error_def truthy_opt_def truthy_def)

text \<open>A text file offered to the page in its initial state.\<close>

theorem invalid_file_stays_idle_witness:
  "appState (ui initial_sys) = IDLE
   \<and> \<not> startsWith (type notes_txt) ''image/''
   \<and> appState (ui (fire initial_sys (InputChange (Some notes_txt)))) = IDLE
   \<and> originalFile (ui (fire initial_sys (InputChange (Some notes_txt)))) = None
   \<and> inflight (fire initial_sys (DropFile (Some notes_txt))) = None"
proof -
  have a: "appState (ui initial_sys) = IDLE" by code_simp
  have b: "\<not> startsWith (type notes_txt) ''image/''" by code_simp
  have c: "originalFile (ui initial_sys) = None" "inflight initial_sys = None" by code_simp+
  from invalid_file_stays_idle [OF a b] a b c show ?thesis by simp
qed

text \<open>
  C9. With no image selected, the refinement handler returns the state as it received
  it and starts no call: both refinement buttons leave the page and its awaited call
  unchanged.
\<close>

theorem refinement_without_selection:
  assumes "selectedImageUrl (ui s) = None"
  shows "handleRefinement (ui s) prompt = (ui s, None)
    \<and> fire s ClickRefine = s \<and> fire s ClickVariations = s"
  using assms by (simp add: handleRefinement_def dispatch_def)

text \<open>The initial state has no image selected.\<close>

theorem refinement_without_selection_witness:
  "selectedImageUrl (ui initial_sys) = None
   \<and> handleRefinement (ui initial_sys) ''add a rosemary sprig'' = (ui initial_sys, None)
   \<and> fire initial_sys ClickVariations = initial_sys"
proof -
  have a: "selectedImageUrl (ui initial_sys) = None" by code_simp
  from refinement_without_selection [OF a, of "''add a rosemary sprig''"] a
  show ?thesis by simp
qed

end
